theory Spec2Isabelle
  imports Complex_Main
begin

section \<open>Strings\<close>

text \<open>
  A Python \<open>str\<close> is modelled as a \<open>string\<close> whose characters are the code points
  0..255. The operations below are the ones \<open>agent.py\<close> applies to its text inputs:
  \<open>s.lower()\<close>, \<open>s.strip()\<close>, \<open>s.split(sep, 1)\<close> and the substring test \<open>a in b\<close>.
\<close>

definition lower_char :: "char \<Rightarrow> char" where
  "lower_char c =
     (let n = (of_char c :: nat)
      in if (65 \<le> n \<and> n \<le> 90) \<or> (192 \<le> n \<and> n \<le> 222 \<and> n \<noteq> 215)
         then char_of (n + 32) else c)"

definition lower :: "string \<Rightarrow> string" where
  "lower s = map lower_char s"

definition is_space :: "char \<Rightarrow> bool" where
  "is_space c =
     (let n = (of_char c :: nat)
      in (9 \<le> n \<and> n \<le> 13) \<or> (28 \<le> n \<and> n \<le> 32) \<or> n = 133 \<or> n = 160)"

definition strip :: "string \<Rightarrow> string" where
  "strip s = rev (dropWhile is_space (rev (dropWhile is_space s)))"

text \<open>\<open>starts_with p s\<close> is \<open>s.startswith(p)\<close>; \<open>is_in a b\<close> is Python's \<open>a in b\<close> on strings.\<close>

fun starts_with :: "string \<Rightarrow> string \<Rightarrow> bool" where
  "starts_with [] s = True"
| "starts_with (p # ps) [] = False"
| "starts_with (p # ps) (c # cs) = (p = c \<and> starts_with ps cs)"

fun is_in :: "string \<Rightarrow> string \<Rightarrow> bool" where
  "is_in a [] = (a = [])"
| "is_in a (c # cs) = (starts_with a (c # cs) \<or> is_in a cs)"

text \<open>\<open>split_once sep s\<close> is \<open>s.split(sep, 1)\<close> for a one-character separator.\<close>

definition split_once :: "char \<Rightarrow> string \<Rightarrow> string list" where
  "split_once sep s =
     (if sep \<in> set s
      then [takeWhile (\<lambda>c. c \<noteq> sep) s, tl (dropWhile (\<lambda>c. c \<noteq> sep) s)]
      else [s])"

text \<open>The \<open>repr\<close> of a list of plain words, as an f-string prints it.\<close>

fun join_with :: "string \<Rightarrow> string list \<Rightarrow> string" where
  "join_with sep [] = []"
| "join_with sep [x] = x"
| "join_with sep (x # y # ys) = x @ sep @ join_with sep (y # ys)"

definition quoted :: "string \<Rightarrow> string" where
  "quoted w = [CHR 0x27] @ w @ [CHR 0x27]"

definition repr_words :: "string list \<Rightarrow> string" where
  "repr_words ws = ''['' @ join_with '', '' (map quoted ws) @ '']''"


section \<open>Tool adapters\<close>

text \<open>
  Every tool returns text. Where the source returns \<open>json.dumps(d, indent=2)\<close> the model
  returns \<open>Json d\<close>, the dictionary that is serialised; a plain message is \<open>Text\<close>.
\<close>

datatype 'a tool_output = Text string | Json 'a

subsection \<open>Platform compliance\<close>

record platform_rule =
  rule_allowed :: bool
  rule_restrictions :: "string list option"
  rule_workarounds :: "string list option"
  rule_best_practices :: "string list option"
  rule_creative_strategies :: "string list option"

text \<open>\<open>_load_platform_compliance\<close>: the dictionary in its insertion order.\<close>

definition load_platform_compliance :: "(string \<times> platform_rule) list" where
  "load_platform_compliance =
    [(''facebook'',
       \<lparr>rule_allowed = False,
        rule_restrictions = Some [''no_cannabis_content'', ''no_cbd_ads'', ''no_hemp_mention''],
        rule_workarounds = Some [''wellness_angle'', ''lifestyle_focus'', ''educational_content''],
        rule_best_practices = None,
        rule_creative_strategies =
          Some [''plant_based_wellness'', ''natural_remedies'', ''health_and_wellness'']\<rparr>),
     (''instagram'',
       \<lparr>rule_allowed = False,
        rule_restrictions =
          Some [''no_cannabis_imagery'', ''no_product_promotion'', ''no_dispensary_ads''],
        rule_workarounds = Some [''brand_awareness'', ''educational_posts'', ''community_building''],
        rule_best_practices = None,
        rule_creative_strategies =
          Some [''lifestyle_branding'', ''wellness_education'', ''brand_storytelling'']\<rparr>),
     (''google_ads'',
       \<lparr>rule_allowed = False,
        rule_restrictions =
          Some [''no_cannabis_keywords'', ''no_cbd_products'', ''no_dispensary_promotion''],
        rule_workarounds = Some [''wellness_keywords'', ''educational_content'', ''brand_terms''],
        rule_best_practices = None,
        rule_creative_strategies =
          Some [''health_and_wellness'', ''natural_products'', ''educational_focus'']\<rparr>),
     (''weedmaps'',
       \<lparr>rule_allowed = True,
        rule_restrictions =
          Some [''age_verification'', ''licensed_operators_only'', ''compliant_imagery''],
        rule_workarounds = None,
        rule_best_practices =
          Some [''high_quality_photos'', ''detailed_descriptions'', ''customer_reviews''],
        rule_creative_strategies =
          Some [''product_showcase'', ''strain_education'', ''deals_and_promotions'']\<rparr>),
     (''leafly'',
       \<lparr>rule_allowed = True,
        rule_restrictions =
          Some [''verified_dispensaries'', ''accurate_product_info'', ''professional_content''],
        rule_workarounds = None,
        rule_best_practices =
          Some [''educational_content'', ''strain_reviews'', ''dispensary_profiles''],
        rule_creative_strategies =
          Some [''expert_content'', ''strain_spotlights'', ''educational_series'']\<rparr>)]"

record compliance_result =
  cr_platform :: string
  cr_allowed :: bool
  cr_content_analysis :: "(string \<times> string) list"
  cr_recommendations :: "string list"
  cr_violations :: "string list"
  cr_creative_strategies :: "string list option"

text \<open>One round of the loop over \<open>rules["restrictions"]\<close>: the \<open>if\<close>/\<open>elif\<close> chain.\<close>

definition check_restriction :: "string \<Rightarrow> string list \<Rightarrow> string \<Rightarrow> string list" where
  "check_restriction content_lower violations restriction =
     (if restriction = ''no_cannabis_content''
         \<and> list_ex (\<lambda>word. is_in word content_lower) [''cannabis'', ''marijuana'', ''weed'', ''thc'']
      then violations @ [''Contains cannabis-related content'']
      else if restriction = ''no_cbd_ads'' \<and> is_in ''cbd'' content_lower
      then violations @ [''Contains CBD references'']
      else if restriction = ''no_hemp_mention'' \<and> is_in ''hemp'' content_lower
      then violations @ [''Contains hemp references'']
      else violations)"

definition check_platform_compliance ::
  "(string \<times> platform_rule) list \<Rightarrow> string \<Rightarrow> compliance_result tool_output" where
  "check_platform_compliance platform_rules platform_and_content =
     (let parts = split_once CHR '':'' platform_and_content
      in if length parts \<noteq> 2 then Text (''Please format as '' @ quoted ''platform:content'')
         else
           let platform = lower (strip (parts ! 0));
               content = strip (parts ! 1)
           in case map_of platform_rules platform of
                None \<Rightarrow>
                  Text (''Platform '' @ quoted platform @ '' not recognized. Available: ''
                        @ repr_words (map fst platform_rules))
              | Some rules \<Rightarrow>
                  let content_lower = lower content;
                      violations =
                        (case rule_restrictions rules of
                           None \<Rightarrow> []
                         | Some rs \<Rightarrow> foldl (check_restriction content_lower) [] rs);
                      recommendations =
                        (case rule_workarounds rules of
                           None \<Rightarrow> []
                         | Some ws \<Rightarrow>
                             if violations \<noteq> []
                             then map (\<lambda>workaround. ''Try '' @ workaround @ '' approach'') ws
                             else [])
                  in Json \<lparr>cr_platform = platform,
                           cr_allowed = rule_allowed rules,
                           cr_content_analysis = [],
                           cr_recommendations = recommendations,
                           cr_violations = violations,
                           cr_creative_strategies = rule_creative_strategies rules\<rparr>)"

subsection \<open>Workflow simulator\<close>

record workflow_simulation =
  workflow_name :: string
  trigger :: string
  nodes :: "(string \<times> string) list"
  expected_outcomes :: "string list"
  automation_benefits :: "string list"

text \<open>
  The dictionary \<open>_simulate_n8n_workflow\<close> starts from; each branch then overwrites some of
  its keys with \<open>update\<close>. A node is the pair of its \<open>"node"\<close> and \<open>"action"\<close> entries.
\<close>

definition empty_workflow :: workflow_simulation where
  "empty_workflow =
     \<lparr>workflow_name = [], trigger = [], nodes = [], expected_outcomes = [],
      automation_benefits = []\<rparr>"

definition content_approval_workflow :: workflow_simulation where
  "content_approval_workflow =
     empty_workflow
       \<lparr>workflow_name := ''Content Approval & Distribution'',
        trigger := ''Webhook - Content Upload'',
        nodes :=
          [(''HTTP Request'', ''Receive content upload''),
           (''OCR'', ''Extract text from images''),
           (''GPT-4 Analysis'', ''Compliance check''),
           (''Conditional'', ''Route based on compliance''),
           (''Email'', ''Send approval notification''),
           (''Social Media Posting'', ''Auto-publish if approved'')],
        expected_outcomes :=
          [''Automated compliance checking'',
           ''Reduced manual review time'',
           ''Consistent brand messaging'',
           ''Platform-specific content optimization''],
        automation_benefits :=
          [''85% reduction in review time'',
           ''100% compliance checking'',
           ''Multi-platform distribution'',
           ''Audit trail for all content'']\<rparr>"

definition campaign_optimization_workflow :: workflow_simulation where
  "campaign_optimization_workflow =
     empty_workflow
       \<lparr>workflow_name := ''Campaign Performance Optimization'',
        trigger := ''Schedule - Daily at 9 AM'',
        nodes :=
          [(''API Call'', ''Fetch campaign metrics''),
           (''Data Analysis'', ''Calculate performance KPIs''),
           (''Conditional'', ''Check performance thresholds''),
           (''Budget Adjustment'', ''Auto-adjust spend allocation''),
           (''Slack Notification'', ''Alert team of changes''),
           (''Report Generation'', ''Create performance summary'')],
        expected_outcomes :=
          [''Automatic budget optimization'',
           ''Real-time performance monitoring'',
           ''Proactive campaign adjustments'',
           ''Data-driven decision making''],
        automation_benefits :=
          [''24/7 campaign monitoring'',
           ''Immediate response to performance changes'',
           ''Optimized ad spend allocation'',
           ''Improved ROI tracking'']\<rparr>"

definition generic_workflow :: workflow_simulation where
  "generic_workflow =
     empty_workflow
       \<lparr>workflow_name := ''Generic Marketing Automation'',
        trigger := ''Custom trigger based on requirements'',
        nodes :=
          [(''Data Input'', ''Collect marketing data''),
           (''Processing'', ''Analyze and transform data''),
           (''Decision Logic'', ''Apply business rules''),
           (''Action Execution'', ''Perform marketing actions''),
           (''Monitoring'', ''Track results and performance'')],
        expected_outcomes :=
          [''Streamlined marketing processes'',
           ''Consistent execution'',
           ''Data-driven insights'',
           ''Scalable operations'']\<rparr>"

definition simulate_n8n_workflow :: "string \<Rightarrow> workflow_simulation tool_output" where
  "simulate_n8n_workflow workflow_description =
     (let description_lower = lower workflow_description
      in if is_in ''content'' description_lower \<and> is_in ''approval'' description_lower
         then Json content_approval_workflow
         else if is_in ''campaign'' description_lower \<and> is_in ''optimization'' description_lower
         then Json campaign_optimization_workflow
         else Json generic_workflow)"


section \<open>Per-user conversation memory\<close>

text \<open>
  \<open>memory_store\<close> maps a user id to a \<open>ConversationBufferWindowMemory\<close> of the LangChain
  library, built with \<open>k=10\<close>. \<open>agent.py\<close> touches that object only through
  \<open>memory.chat_memory\<close>: it reads \<open>memory.chat_memory.messages\<close> and appends with
  \<open>add_user_message\<close> and \<open>add_ai_message\<close>. In the library \<open>chat_memory\<close> is a plain
  message history whose \<open>messages\<close> list these two calls extend by one message each; the
  window \<open>k\<close> is applied by the library only where the memory's own buffer is loaded
  (\<open>load_memory_variables\<close>), which \<open>agent.py\<close> never calls. The record keeps the
  constructor's arguments and the message list.
\<close>

datatype message = HumanMessage (content: string) | AIMessage (content: string)

record conversation_memory =
  mem_k :: nat
  mem_return_messages :: bool
  mem_memory_key :: string
  chat_memory :: "message list"

type_synonym memory_store = "string \<rightharpoonup> conversation_memory"

definition add_user_message :: "conversation_memory \<Rightarrow> string \<Rightarrow> conversation_memory" where
  "add_user_message memory text = memory\<lparr>chat_memory := chat_memory memory @ [HumanMessage text]\<rparr>"

definition add_ai_message :: "conversation_memory \<Rightarrow> string \<Rightarrow> conversation_memory" where
  "add_ai_message memory text = memory\<lparr>chat_memory := chat_memory memory @ [AIMessage text]\<rparr>"

text \<open>\<open>_get_user_memory\<close> returns the user's memory and the store, extended on first use.\<close>

definition get_user_memory :: "memory_store \<Rightarrow> string \<Rightarrow> conversation_memory \<times> memory_store" where
  "get_user_memory memory_store user_id =
     (case memory_store user_id of
        None \<Rightarrow>
          (let memory = \<lparr>mem_k = 10, mem_return_messages = True,
                         mem_memory_key = ''chat_history'', chat_memory = []\<rparr>
           in (memory, memory_store(user_id \<mapsto> memory)))
      | Some memory \<Rightarrow> (memory, memory_store))"

definition clear_user_memory :: "memory_store \<Rightarrow> string \<Rightarrow> memory_store" where
  "clear_user_memory memory_store user_id =
     (if user_id \<in> dom memory_store then memory_store(user_id := None) else memory_store)"


section \<open>Query processing\<close>

text \<open>
  The \<open>context\<close> argument is an optional dictionary of JSON values. What lies outside
  \<open>agent.py\<close> and answers during one call is collected in a \<open>call_env\<close>:
  \<^item> \<open>invoke\<close> is \<open>agent_executor.invoke\<close> on the input text and the chat history; it
    returns its result dictionary (\<open>Inr\<close>) or raises an exception \<open>e\<close>, given as the
    text \<open>str(e)\<close> (\<open>Inl\<close>). The dictionary may lack its \<open>"output"\<close> entry, or hold
    there a value that \<open>add_ai_message\<close> refuses with an exception, given again as its
    text;
  \<^item> \<open>json_dumps\<close> is \<open>json.dumps\<close> on a context;
  \<^item> \<open>now\<close> is what \<open>datetime.now().isoformat()\<close> reads when the result is built.
  Every call has its own environment, so nothing is assumed about how the reasoning
  service answers from one call to the next.
\<close>

datatype jvalue =
  JNull | JBool bool | JInt int | JStr string | JList "jvalue list" | JDict "(string \<times> jvalue) list"

type_synonym query_context = "(string \<times> jvalue) list"

type_synonym tool_step = "string \<times> string \<times> string"

datatype output_value = OutputText string | Refused string

record agent_output =
  "output" :: "output_value option"
  out_intermediate_steps :: "tool_step list option"

record call_env =
  invoke :: "string \<Rightarrow> message list \<Rightarrow> string + agent_output"
  json_dumps :: "query_context \<Rightarrow> string"
  now :: string

record query_result =
  qr_response :: string
  qr_intermediate_steps :: "tool_step list option"
  qr_confidence :: real
  qr_timestamp :: string
  qr_user_id :: string
  qr_error :: "string option"

text \<open>The \<open>if context:\<close> statement: an absent or empty dictionary leaves the query as it is.\<close>

definition with_context :: "call_env \<Rightarrow> string \<Rightarrow> query_context option \<Rightarrow> string" where
  "with_context env query context =
     (case context of
        None \<Rightarrow> query
      | Some d \<Rightarrow>
          if d \<noteq> []
          then ''Context: '' @ json_dumps env d @ ''\<newline>\<newline>Query: '' @ query
          else query)"

text \<open>The dictionary that the \<open>except\<close> branch of \<open>process_query\<close> returns.\<close>

definition error_result :: "call_env \<Rightarrow> string \<Rightarrow> string \<Rightarrow> query_result" where
  "error_result env user_id e =
     \<lparr>qr_response = ''I encountered an error processing your marketing query: '' @ e,
      qr_intermediate_steps = None,
      qr_confidence = 0.0,
      qr_timestamp = now env,
      qr_user_id = user_id,
      qr_error = Some e\<rparr>"

text \<open>
  The body of \<open>process_query\<close> is one \<open>try\<close> block. The memory object lives in the store, so
  each append is visible there at once: \<open>add_user_message(query)\<close> has happened when
  \<open>result["output"]\<close> is read for \<open>add_ai_message\<close>, and an exception raised at that
  point (the \<open>KeyError\<close> of a missing entry, whose text is \<open>'output'\<close>, or the refusal of
  the value) reaches the \<open>except\<close> branch with the user turn stored.
\<close>

definition process_query ::
  "call_env \<Rightarrow> memory_store \<Rightarrow> string \<Rightarrow> string \<Rightarrow> query_context option
     \<Rightarrow> query_result \<times> memory_store" where
  "process_query env memory_store user_id query context =
     (let (memory, memory_store) = get_user_memory memory_store user_id;
          query = with_context env query context
      in case invoke env query (chat_memory memory) of
           Inl e \<Rightarrow> (error_result env user_id e, memory_store)
         | Inr result \<Rightarrow>
             (let memory = add_user_message memory query;
                  memory_store = memory_store(user_id \<mapsto> memory)
              in case output result of
                   None \<Rightarrow> (error_result env user_id (quoted ''output''), memory_store)
                 | Some (Refused e) \<Rightarrow> (error_result env user_id e, memory_store)
                 | Some (OutputText answer) \<Rightarrow>
                     (let memory = add_ai_message memory answer
                      in (\<lparr>qr_response = answer,
                           qr_intermediate_steps =
                             Some (case out_intermediate_steps result of
                                     None \<Rightarrow> [] | Some steps \<Rightarrow> steps),
                           qr_confidence = 0.85,
                           qr_timestamp = now env,
                           qr_user_id = user_id,
                           qr_error = None\<rparr>,
                          memory_store(user_id \<mapsto> memory)))))"


section \<open>Reading the history\<close>

text \<open>\<open>slice_from start xs\<close> is the Python slice \<open>xs[start:]\<close>.\<close>

definition slice_from :: "int \<Rightarrow> 'a list \<Rightarrow> 'a list" where
  "slice_from start xs =
     (let n = int (length xs);
          s = (if start < 0 then max (start + n) 0 else min start n)
      in drop (nat s) xs)"

record history_entry =
  user_message :: string
  agent_response :: string
  entry_timestamp :: string

text \<open>
  The loop \<open>for i in range(0, len(messages), 2)\<close> with its guard \<open>i + 1 < len(messages)\<close>:
  it takes the messages two at a time and drops a last message that has no partner.
  \<open>clock i\<close> is the time read in the round with index \<open>i\<close>.
\<close>

fun pair_up :: "(nat \<Rightarrow> string) \<Rightarrow> nat \<Rightarrow> message list \<Rightarrow> history_entry list" where
  "pair_up clock i (m # m' # ms) =
     \<lparr>user_message = content m, agent_response = content m', entry_timestamp = clock i\<rparr>
       # pair_up clock (i + 2) ms"
| "pair_up clock i ms = []"

definition get_user_conversation_history ::
  "(nat \<Rightarrow> string) \<Rightarrow> memory_store \<Rightarrow> string \<Rightarrow> int \<Rightarrow> history_entry list" where
  "get_user_conversation_history clock memory_store user_id limit =
     (case memory_store user_id of
        None \<Rightarrow> []
      | Some memory \<Rightarrow>
          let messages = slice_from (- limit * 2) (chat_memory memory)
          in pair_up clock 0 messages)"


section \<open>Baseline evaluation\<close>

text \<open>
  A baseline question is a dictionary read from \<open>baseline.json\<close>; each key may be missing.
  Keywords and texts are strings, so the \<open>except\<close> branch of
  \<open>_evaluate_baseline_response\<close> has nothing to catch. Python's floats are modelled as
  real numbers.
\<close>

record baseline_question =
  q_id :: "string option"
  q_question :: "string option"
  q_expected_answer :: "string option"
  q_keywords :: "string list option"

record evaluation =
  ev_passed :: bool
  ev_confidence :: real
  ev_keyword_matches :: nat
  ev_total_keywords :: nat
  ev_marketing_relevance :: real
  ev_response_length :: nat

definition marketing_terms :: "string list" where
  "marketing_terms =
     [''platform'', ''compliance'', ''strategy'', ''campaign'', ''audience'', ''creative'']"

definition evaluate_baseline_response :: "baseline_question \<Rightarrow> string \<Rightarrow> evaluation" where
  "evaluate_baseline_response question response =
     (let expected_keywords = (case q_keywords question of None \<Rightarrow> [] | Some ks \<Rightarrow> ks);
          response_lower = lower response;
          keyword_matches =
            length (filter (\<lambda>keyword. is_in (lower keyword) response_lower) expected_keywords);
          keyword_score =
            (if expected_keywords \<noteq> []
             then real keyword_matches / real (length expected_keywords) else 0.5);
          marketing_score =
            real (length (filter (\<lambda>term. is_in term response_lower) marketing_terms))
              / real (length marketing_terms);
          length_score = min (real (length response) / 200) 1.0;
          overall_score = keyword_score * 0.4 + marketing_score * 0.4 + length_score * 0.2
      in \<lparr>ev_passed = (overall_score \<ge> 0.6),
          ev_confidence = overall_score,
          ev_keyword_matches = keyword_matches,
          ev_total_keywords = length expected_keywords,
          ev_marketing_relevance = marketing_score,
          ev_response_length = length response\<rparr>)"

text \<open>
  One row of \<open>results\<close>. The \<open>except\<close> branch of the loop in \<open>run_baseline_test\<close> reads
  \<open>question["question"]\<close> again: the only exception the \<open>try\<close> block can raise is the
  \<open>KeyError\<close> of that same read, so the handler raises it anew and the error leaves
  \<open>run_baseline_test\<close> before the memory is cleared.
\<close>

datatype py_error = KeyError string

record baseline_result =
  br_question_id :: string
  br_question :: string
  br_expected :: string
  br_actual :: string
  br_passed :: bool
  br_confidence :: real
  br_evaluation :: evaluation

record baseline_report =
  rep_agent_type :: string
  rep_total_questions :: nat
  rep_passed :: nat
  rep_average_confidence :: real
  rep_results :: "baseline_result list"
  rep_timestamp :: string

datatype baseline_outcome = ErrorOnly string | Report baseline_report

definition get_or :: "'a option \<Rightarrow> 'a \<Rightarrow> 'a" where
  "get_or v d = (case v of None \<Rightarrow> d | Some x \<Rightarrow> x)"

text \<open>
  The loop over \<open>questions[:5]\<close>; \<open>envs i\<close> is the environment of the call made for the
  question with index \<open>i\<close>.
\<close>

fun run_questions ::
  "(nat \<Rightarrow> call_env) \<Rightarrow> nat \<Rightarrow> baseline_question list \<Rightarrow> baseline_result list
     \<Rightarrow> memory_store \<Rightarrow> (py_error + baseline_result list) \<times> memory_store" where
  "run_questions envs i [] results memory_store = (Inr results, memory_store)"
| "run_questions envs i (question # questions) results memory_store =
     (case q_question question of
        None \<Rightarrow> (Inl (KeyError ''question''), memory_store)
      | Some text \<Rightarrow>
          let (response, memory_store) =
                process_query (envs i) memory_store ''baseline_test'' text
                  (Some [(''test_mode'', JBool True)]);
              evaluation = evaluate_baseline_response question (qr_response response);
              row = \<lparr>br_question_id = get_or (q_id question) ''unknown'',
                     br_question = text,
                     br_expected = get_or (q_expected_answer question) [],
                     br_actual = qr_response response,
                     br_passed = ev_passed evaluation,
                     br_confidence = ev_confidence evaluation,
                     br_evaluation = evaluation\<rparr>
          in run_questions envs (i + 1) questions (results @ [row]) memory_store)"

text \<open>The selection \<open>if question_id: questions = [q for q in questions if ...]\<close>.\<close>

definition select_questions :: "string option \<Rightarrow> baseline_question list \<Rightarrow> baseline_question list" where
  "select_questions question_id questions =
     (case question_id of
        None \<Rightarrow> questions
      | Some qid \<Rightarrow> if qid \<noteq> [] then filter (\<lambda>q. q_id q = Some qid) questions else questions)"

definition run_baseline_test ::
  "(nat \<Rightarrow> call_env) \<Rightarrow> string \<Rightarrow> baseline_question list \<Rightarrow> memory_store \<Rightarrow> string option
     \<Rightarrow> (py_error + baseline_outcome) \<times> memory_store" where
  "run_baseline_test envs end_time baseline_questions memory_store question_id =
     (if baseline_questions = []
      then (Inr (ErrorOnly ''No baseline questions available''), memory_store)
      else
        let questions = select_questions question_id baseline_questions
        in case run_questions envs 0 (take 5 questions) [] memory_store of
             (Inl e, memory_store) \<Rightarrow> (Inl e, memory_store)
           | (Inr results, memory_store) \<Rightarrow>
               (Inr (Report
                  \<lparr>rep_agent_type = ''marketing'',
                   rep_total_questions = length results,
                   rep_passed = length (filter br_passed results),
                   rep_average_confidence =
                     (if results \<noteq> []
                      then sum_list (map br_confidence results) / real (length results) else 0),
                   rep_results = results,
                   rep_timestamp = end_time\<rparr>),
                clear_user_memory memory_store ''baseline_test''))"


section \<open>Notions used to state the properties\<close>

text \<open>
  The messages stored for a user (none for an unknown user), the messages that a list of
  exchanges leaves behind, and the two fields of a history entry that come from the
  messages.
\<close>

definition messages_of :: "memory_store \<Rightarrow> string \<Rightarrow> message list" where
  "messages_of memory_store user_id =
     (case memory_store user_id of None \<Rightarrow> [] | Some memory \<Rightarrow> chat_memory memory)"

fun exchange_messages :: "(string \<times> string) list \<Rightarrow> message list" where
  "exchange_messages [] = []"
| "exchange_messages ((user_text, agent_text) # exchanges) =
     HumanMessage user_text # AIMessage agent_text # exchange_messages exchanges"

definition entry_pair :: "history_entry \<Rightarrow> string \<times> string" where
  "entry_pair entry = (user_message entry, agent_response entry)"

text \<open>Roles, and a message list whose roles alternate from a given first role.\<close>

datatype role = User | Agent

fun role_of :: "message \<Rightarrow> role" where
  "role_of (HumanMessage text) = User"
| "role_of (AIMessage text) = Agent"

fun other_role :: "role \<Rightarrow> role" where
  "other_role User = Agent"
| "other_role Agent = User"

fun alternates_from :: "role \<Rightarrow> message list \<Rightarrow> bool" where
  "alternates_from r [] = True"
| "alternates_from r (m # ms) = (role_of m = r \<and> alternates_from (other_role r) ms)"

text \<open>
  A sequence of \<open>process_query\<close> calls, each with its environment, its user, its query and
  its context, run one after the other on a store.
\<close>

type_synonym query_call = "call_env \<times> string \<times> string \<times> query_context option"

fun run_calls :: "query_call list \<Rightarrow> memory_store \<Rightarrow> memory_store" where
  "run_calls [] memory_store = memory_store"
| "run_calls ((env, user_id, query, context) # calls) memory_store =
     run_calls calls (snd (process_query env memory_store user_id query context))"

text \<open>
  Concrete environments and inputs for the examples: a reasoning service that answers
  every query with the same text, one that always raises, one whose result dictionary
  has no \<open>"output"\<close> entry, and a question set of seven.
  \<open>json_dumps\<close> of these environments is the serialisation of the one context the examples
  pass, \<open>{"test_mode": True}\<close>.
\<close>

definition replying_env :: call_env where
  \<open>replying_env =
     \<lparr>invoke =
        (\<lambda>input history.
           Inr \<lparr>output = Some (OutputText ''Sure.''), out_intermediate_steps = Some []\<rparr>),
      json_dumps = (\<lambda>d. ''{"test_mode": true}''),
      now = ''2024-05-01T09:00:00''\<rparr>\<close>



definition failing_env :: call_env where
  \<open>failing_env =
     \<lparr>invoke = (\<lambda>input history. Inl ''Connection error.''),
      json_dumps = (\<lambda>d. ''{"test_mode": true}''),
      now = ''2024-05-01T09:00:00''\<rparr>\<close>

definition test_mode :: query_context where
  "test_mode = [(''test_mode'', JBool True)]"

definition eleven_queries :: "string list" where
  "eleven_queries =
     [''q01'', ''q02'', ''q03'', ''q04'', ''q05'', ''q06'', ''q07'', ''q08'', ''q09'', ''q10'',
      ''q11'']"

definition eleven_calls :: "query_call list" where
  "eleven_calls = map (\<lambda>query. (replying_env, ''alice'', query, None)) eleven_queries"

definition plain_question :: "string \<Rightarrow> baseline_question" where
  "plain_question name =
     \<lparr>q_id = Some name, q_question = Some (''Question '' @ name), q_expected_answer = None,
      q_keywords = Some [''sure'']\<rparr>"

definition seven_questions :: "baseline_question list" where
  "seven_questions = map plain_question [''b1'', ''b2'', ''b3'', ''b4'', ''b5'', ''b6'', ''b7'']"

definition sample_question :: baseline_question where
  "sample_question =
     \<lparr>q_id = Some ''q1'', q_question = Some ''How do I advertise on Facebook?'',
      q_expected_answer = Some ''Use a wellness angle'',
      q_keywords = Some [''Wellness'', ''facebook'']\<rparr>"

definition sample_response :: string where
  "sample_response =
     ''On Facebook a WELLNESS angle is the safest strategy. '' @ replicate 150 CHR ''.''"

definition alice_store :: memory_store where
  "alice_store = run_calls eleven_calls Map.empty"

definition alice_exchanges :: "(string \<times> string) list" where
  "alice_exchanges = map (\<lambda>query. (query, ''Sure.'')) eleven_queries"

definition alice_memory :: conversation_memory where
  "alice_memory =
     \<lparr>mem_k = 10, mem_return_messages = True, mem_memory_key = ''chat_history'',
      chat_memory = exchange_messages alice_exchanges\<rparr>"

definition noon :: "nat \<Rightarrow> string" where
  "noon i = ''2024-05-01T12:00:00''"

definition replying_envs :: "nat \<Rightarrow> call_env" where
  "replying_envs i = replying_env"



section \<open>Substrings\<close>

lemma starts_with_iff: "starts_with p s \<longleftrightarrow> (\<exists>r. s = p @ r)"
  by (induction p s rule: starts_with.induct) auto

lemma is_in_iff: "is_in a b \<longleftrightarrow> (\<exists>p r. b = p @ a @ r)"
proof (induction b)
  case Nil
  then show ?case by auto
next
  case (Cons c cs)
  show ?case
  proof
    assume "is_in a (c # cs)"
    then consider "starts_with a (c # cs)" | "is_in a cs" by auto
    then show "\<exists>p r. c # cs = p @ a @ r"
    proof cases
      case 1
      then obtain r where "c # cs = a @ r" by (auto simp: starts_with_iff)
      then have "c # cs = [] @ a @ r" by simp
      then show ?thesis by blast
    next
      case 2
      then obtain p r where "cs = p @ a @ r" using Cons.IH by auto
      then have "c # cs = (c # p) @ a @ r" by simp
      then show ?thesis by blast
    qed
  next
    assume "\<exists>p r. c # cs = p @ a @ r"
    then obtain p r where eq: "c # cs = p @ a @ r" by blast
    show "is_in a (c # cs)"
    proof (cases p)
      case Nil
      with eq have "starts_with a (c # cs)" by (auto simp: starts_with_iff)
      then show ?thesis by simp
    next
      case (Cons x p')
      with eq have "cs = p' @ a @ r" by simp
      then have "is_in a cs" using Cons.IH by blast
      then show ?thesis by simp
    qed
  qed
qed

lemma is_in_lower: "is_in a b \<Longrightarrow> is_in (lower a) (lower b)"
proof -
  assume "is_in a b"
  then obtain p r where "b = p @ a @ r" by (auto simp: is_in_iff)
  then have "lower b = lower p @ lower a @ lower r" by (simp add: lower_def)
  then show ?thesis unfolding is_in_iff by blast
qed

lemma marketing_terms_lower: "t \<in> set marketing_terms \<Longrightarrow> lower t = t"
  by (auto simp: marketing_terms_def; code_simp)

lemma filter_length_pos: "\<exists>x \<in> set xs. P x \<Longrightarrow> 1 \<le> length (filter P xs)"
  by (induction xs) auto


section \<open>The tool adapters on the inputs of the specification\<close>

text \<open>
  \<^bold>\<open>C5.\<close> The compliance checker applied to
  \<open>"facebook:our cannabis dispensary has the best thc products"\<close> returns a result whose
  \<open>allowed\<close> field is false and whose violations list is not empty and contains the
  cannabis-content violation.
\<close>

theorem facebook_cannabis_not_allowed:
  "case check_platform_compliance load_platform_compliance
          ''facebook:our cannabis dispensary has the best thc products'' of
     Text message \<Rightarrow> False
   | Json r \<Rightarrow>
       \<not> cr_allowed r \<and> cr_violations r \<noteq> []
       \<and> ''Contains cannabis-related content'' \<in> set (cr_violations r)"
  by code_simp

text \<open>
  \<^bold>\<open>C6\<close>, as the specification has it, asks that \<open>"optimize campaign spend"\<close> selects the
  campaign-optimization workflow. The input holds \<open>"campaign"\<close> but not \<open>"optimization"\<close>,
  and the simulator answers with the generic workflow.
\<close>

theorem optimize_campaign_spend_counterexample:
  "simulate_n8n_workflow ''optimize campaign spend'' = Json generic_workflow
   \<and> simulate_n8n_workflow ''optimize campaign spend'' \<noteq> Json campaign_optimization_workflow"
  by code_simp

text \<open>
  \<^bold>\<open>C6\<close>, amended. The workflow simulator returns the campaign-optimization workflow for
  every input that, in lower case, contains both \<open>"campaign"\<close> and \<open>"optimization"\<close> and does
  not contain both \<open>"content"\<close> and \<open>"approval"\<close>; an input without \<open>"optimization"\<close> (and
  without the content-approval pair), such as \<open>"optimize campaign spend"\<close>, gets the generic
  fallback workflow.
\<close>

theorem workflow_selection:
  "(is_in ''campaign'' (lower d) \<and> is_in ''optimization'' (lower d)
      \<and> \<not> (is_in ''content'' (lower d) \<and> is_in ''approval'' (lower d))
      \<longrightarrow> simulate_n8n_workflow d = Json campaign_optimization_workflow)
   \<and> (\<not> is_in ''optimization'' (lower d)
      \<and> \<not> (is_in ''content'' (lower d) \<and> is_in ''approval'' (lower d))
      \<longrightarrow> simulate_n8n_workflow d = Json generic_workflow)"
  by (simp add: simulate_n8n_workflow_def Let_def)

theorem workflow_selection_witness:
  "is_in ''campaign'' (lower ''Campaign optimization'')
   \<and> is_in ''optimization'' (lower ''Campaign optimization'')
   \<and> \<not> (is_in ''content'' (lower ''Campaign optimization'')
        \<and> is_in ''approval'' (lower ''Campaign optimization''))
   \<and> simulate_n8n_workflow ''Campaign optimization'' = Json campaign_optimization_workflow
   \<and> \<not> is_in ''optimization'' (lower ''optimize campaign spend'')
   \<and> \<not> (is_in ''content'' (lower ''optimize campaign spend'')
        \<and> is_in ''approval'' (lower ''optimize campaign spend''))
   \<and> simulate_n8n_workflow ''optimize campaign spend'' = Json generic_workflow"
proof -
  have a: "is_in ''campaign'' (lower ''Campaign optimization'')" by code_simp
  have b: "is_in ''optimization'' (lower ''Campaign optimization'')" by code_simp
  have c: "\<not> (is_in ''content'' (lower ''Campaign optimization'')
             \<and> is_in ''approval'' (lower ''Campaign optimization''))" by code_simp
  have d: "\<not> is_in ''optimization'' (lower ''optimize campaign spend'')" by code_simp
  have e: "\<not> (is_in ''content'' (lower ''optimize campaign spend'')
             \<and> is_in ''approval'' (lower ''optimize campaign spend''))" by code_simp
  show ?thesis
    using workflow_selection [of "''Campaign optimization''"]
      workflow_selection [of "''optimize campaign spend''"] a b c d e
    by blast
qed


section \<open>Scoring\<close>

text \<open>
  \<^bold>\<open>C7.\<close> For every baseline question with a non-empty keyword list and every response
  that contains all of the question's keywords as case-insensitive substrings, contains at
  least one of the six marketing terms and is at least 200 characters long, the overall
  score is at least 0.6 and \<open>passed\<close> is true. The score is in fact at least 2/3, far
  enough from the threshold that the rounding of floating-point arithmetic cannot
  change the verdict.
\<close>

theorem full_coverage_passes:
  assumes "q_keywords question = Some keywords" and "keywords \<noteq> []"
    and "\<forall>keyword \<in> set keywords. is_in (lower keyword) (lower response)"
    and "\<exists>t \<in> set marketing_terms. is_in t response \<or> is_in t (lower response)"
    and "200 \<le> length response"
  shows "0.6 \<le> ev_confidence (evaluate_baseline_response question response)
         \<and> ev_passed (evaluate_baseline_response question response)
         \<and> 2 / 3 \<le> ev_confidence (evaluate_baseline_response question response)"
proof -
  let ?rl = "lower response"
  have kw: "filter (\<lambda>keyword. is_in (lower keyword) ?rl) keywords = keywords"
    using assms(3) by (simp add: filter_id_conv)
  have "\<exists>t \<in> set marketing_terms. is_in t ?rl"
    using assms(4) is_in_lower marketing_terms_lower by metis
  then have "1 \<le> length (filter (\<lambda>t. is_in t ?rl) marketing_terms)"
    by (rule filter_length_pos)
  then have m: "1 \<le> real (length (filter (\<lambda>t. is_in t ?rl) marketing_terms))"
    by simp
  have len6: "length marketing_terms = 6" by (simp add: marketing_terms_def)
  have l: "min (real (length response) / 200) 1 = 1"
    using assms(5) by (simp add: min_def)
  have k: "real (length keywords) / real (length keywords) = 1"
    using assms(2) by simp
  define c where "c = real (length (filter (\<lambda>t. is_in t ?rl) marketing_terms))"
  have conf: "ev_confidence (evaluate_baseline_response question response)
      = 1 * 0.4 + c / 6 * 0.4 + 1 * 0.2"
    using assms(1,2) kw l k len6 by (simp add: evaluate_baseline_response_def Let_def c_def)
  have "c \<ge> 1" using m by (simp add: c_def)
  then have ge: "2 / 3 \<le> ev_confidence (evaluate_baseline_response question response)"
    unfolding conf by simp
  have p: "ev_passed (evaluate_baseline_response question response)
      = (0.6 \<le> ev_confidence (evaluate_baseline_response question response))"
    by (simp add: evaluate_baseline_response_def Let_def)
  from ge p show ?thesis by simp
qed

theorem full_coverage_passes_witness:
  "q_keywords sample_question = Some [''Wellness'', ''facebook'']
   \<and> is_in (lower ''Wellness'') (lower sample_response)
   \<and> is_in (lower ''facebook'') (lower sample_response)
   \<and> ''strategy'' \<in> set marketing_terms
   \<and> is_in ''strategy'' sample_response
   \<and> length sample_response = 203
   \<and> 0.6 \<le> ev_confidence (evaluate_baseline_response sample_question sample_response)
   \<and> ev_passed (evaluate_baseline_response sample_question sample_response)"
proof -
  have a: "q_keywords sample_question = Some [''Wellness'', ''facebook'']"
    by (simp add: sample_question_def)
  have b: "[''Wellness'', ''facebook''] \<noteq> []" by simp
  have c1: "is_in (lower ''Wellness'') (lower sample_response)"
    unfolding sample_response_def by code_simp
  have c2: "is_in (lower ''facebook'') (lower sample_response)"
    unfolding sample_response_def by code_simp
  have c: "\<forall>keyword \<in> set [''Wellness'', ''facebook''].
             is_in (lower keyword) (lower sample_response)"
    using c1 c2 by simp
  have d1: "''strategy'' \<in> set marketing_terms"
    by (simp add: marketing_terms_def)
  have d2: "is_in ''strategy'' sample_response"
    unfolding sample_response_def by code_simp
  have d: "\<exists>t \<in> set marketing_terms. is_in t sample_response \<or> is_in t (lower sample_response)"
    using d1 d2 by blast
  have e1: "length sample_response = 203"
    unfolding sample_response_def by simp
  then have e: "200 \<le> length sample_response" by simp
  show ?thesis using full_coverage_passes [OF a b c d e] a c1 c2 d1 d2 e1 by simp
qed

section \<open>Query processing and the stored history\<close>

lemma get_user_memory_messages:
  "chat_memory (fst (get_user_memory store user_id)) = messages_of store user_id"
  by (simp add: get_user_memory_def messages_of_def Let_def split: option.splits)

lemma get_user_memory_store:
  "messages_of (snd (get_user_memory store user_id)) u = messages_of store u"
  by (simp add: get_user_memory_def messages_of_def Let_def split: option.splits)

text \<open>
  The outcomes of a call: the reasoning service raises; it returns a text, which is
  stored after the user turn; or it returns a result whose output cannot be stored, when
  the user turn alone is kept.
\<close>

lemma process_query_raise:
  assumes "invoke env (with_context env query ctx) (messages_of store user_id) = Inl e"
  shows "process_query env store user_id query ctx =
           (error_result env user_id e, snd (get_user_memory store user_id))"
proof -
  obtain memory store1 where g: "get_user_memory store user_id = (memory, store1)"
    by (cases "get_user_memory store user_id") auto
  then have "chat_memory memory = messages_of store user_id"
    using get_user_memory_messages [of store user_id] by simp
  then show ?thesis using assms g by (simp add: process_query_def)
qed

lemma process_query_return:
  assumes "invoke env (with_context env query ctx) (messages_of store user_id) = Inr result"
    and "output result = Some (OutputText answer)"
  shows "qr_error (fst (process_query env store user_id query ctx)) = None"
    and "qr_response (fst (process_query env store user_id query ctx)) = answer"
    and "qr_confidence (fst (process_query env store user_id query ctx)) = 0.85"
    and "messages_of (snd (process_query env store user_id query ctx)) user_id =
           messages_of store user_id
             @ [HumanMessage (with_context env query ctx), AIMessage answer]"
    and "u \<noteq> user_id \<Longrightarrow>
           messages_of (snd (process_query env store user_id query ctx)) u = messages_of store u"
proof -
  obtain memory store1 where g: "get_user_memory store user_id = (memory, store1)"
    by (cases "get_user_memory store user_id") auto
  then have m: "chat_memory memory = messages_of store user_id"
    using get_user_memory_messages [of store user_id] by simp
  have s: "messages_of store1 v = messages_of store v" for v
    using get_user_memory_store [of store user_id v] g by simp
  have p: "process_query env store user_id query ctx =
      (\<lparr>qr_response = answer,
        qr_intermediate_steps =
          Some (case out_intermediate_steps result of None \<Rightarrow> [] | Some steps \<Rightarrow> steps),
        qr_confidence = 0.85, qr_timestamp = now env, qr_user_id = user_id, qr_error = None\<rparr>,
       store1(user_id \<mapsto>
         add_ai_message (add_user_message memory (with_context env query ctx)) answer))"
    using assms g m by (simp add: process_query_def Let_def)
  show "qr_error (fst (process_query env store user_id query ctx)) = None"
    and "qr_response (fst (process_query env store user_id query ctx)) = answer"
    and "qr_confidence (fst (process_query env store user_id query ctx)) = 0.85"
    by (simp_all add: p)
  show "messages_of (snd (process_query env store user_id query ctx)) user_id =
           messages_of store user_id
             @ [HumanMessage (with_context env query ctx), AIMessage answer]"
    using m by (simp add: p messages_of_def add_user_message_def add_ai_message_def)
  show "messages_of (snd (process_query env store user_id query ctx)) u = messages_of store u"
    if "u \<noteq> user_id"
    using that s [of u] by (simp add: p messages_of_def)
qed

lemma process_query_unstored:
  assumes "invoke env (with_context env query ctx) (messages_of store user_id) = Inr result"
    and "output result = None \<or> output result = Some (Refused e)"
  shows "qr_error (fst (process_query env store user_id query ctx)) \<noteq> None"
    and "messages_of (snd (process_query env store user_id query ctx)) user_id =
           messages_of store user_id @ [HumanMessage (with_context env query ctx)]"
proof -
  obtain memory store1 where g: "get_user_memory store user_id = (memory, store1)"
    by (cases "get_user_memory store user_id") auto
  then have m: "chat_memory memory = messages_of store user_id"
    using get_user_memory_messages [of store user_id] by simp
  have p: "process_query env store user_id query ctx =
      (error_result env user_id (case output result of None \<Rightarrow> quoted ''output'' | Some v \<Rightarrow> e),
       store1(user_id \<mapsto> add_user_message memory (with_context env query ctx)))"
    using assms g m by (auto simp add: process_query_def Let_def)
  show "qr_error (fst (process_query env store user_id query ctx)) \<noteq> None"
    by (simp add: p error_result_def)
  show "messages_of (snd (process_query env store user_id query ctx)) user_id =
           messages_of store user_id @ [HumanMessage (with_context env query ctx)]"
    using m by (simp add: p messages_of_def add_user_message_def)
qed

text \<open>A call that reports no error is one whose reasoning service returned a text.\<close>

lemma process_query_succeeded:
  assumes "qr_error (fst (process_query env store user_id query ctx)) = None"
  obtains result answer where
    "invoke env (with_context env query ctx) (messages_of store user_id) = Inr result"
    and "output result = Some (OutputText answer)"
proof (cases "invoke env (with_context env query ctx) (messages_of store user_id)")
  case (Inl e)
  with assms show ?thesis by (simp add: process_query_raise error_result_def)
next
  case (Inr result)
  show ?thesis
  proof (cases "output result")
    case None
    with assms process_query_unstored(1) [OF Inr] show ?thesis by blast
  next
    case (Some v)
    show ?thesis
    proof (cases v)
      case (OutputText answer)
      with Inr Some that show ?thesis by simp
    next
      case (Refused e)
      with assms process_query_unstored(1) [OF Inr, of e] Some show ?thesis by blast
    qed
  qed
qed

lemma history_reads_messages:
  "get_user_conversation_history clock store u limit =
     pair_up clock 0 (slice_from (- limit * 2) (messages_of store u))"
  by (simp add: get_user_conversation_history_def messages_of_def slice_from_def Let_def
      split: option.splits)

text \<open>
  \<^bold>\<open>C3.\<close> When the reasoning service raises during \<open>process_query\<close>, the stored history
  of the user (and of every other user) has the same messages before and after, so every
  read of the history returns what it returned before; the result has confidence 0.0, an
  error field holding the text of the exception and the error response built from it.
  \<open>process_query\<close> returns this result: its model has no outcome that is an exception.
\<close>

theorem failed_query_leaves_history:
  assumes "invoke env (with_context env query ctx) (messages_of store user_id) = Inl e"
  shows "messages_of (snd (process_query env store user_id query ctx)) u = messages_of store u
    \<and> get_user_conversation_history clock (snd (process_query env store user_id query ctx)) u limit
        = get_user_conversation_history clock store u limit
    \<and> qr_confidence (fst (process_query env store user_id query ctx)) = 0
    \<and> qr_error (fst (process_query env store user_id query ctx)) = Some e
    \<and> qr_response (fst (process_query env store user_id query ctx))
        = ''I encountered an error processing your marketing query: '' @ e"
  using assms
  by (simp add: process_query_raise get_user_memory_store history_reads_messages
      error_result_def)

theorem failed_query_leaves_history_witness:
  "invoke failing_env (with_context failing_env ''hello'' (Some test_mode))
       (messages_of alice_store ''alice'') = Inl ''Connection error.''
   \<and> messages_of (snd (process_query failing_env alice_store ''alice'' ''hello'' (Some test_mode)))
        ''alice'' = messages_of alice_store ''alice''
   \<and> length (messages_of alice_store ''alice'') = 22
   \<and> get_user_conversation_history noon
        (snd (process_query failing_env alice_store ''alice'' ''hello'' (Some test_mode)))
        ''alice'' 10
      = get_user_conversation_history noon alice_store ''alice'' 10
   \<and> qr_confidence (fst (process_query failing_env alice_store ''alice'' ''hello'' (Some test_mode)))
      = 0
   \<and> qr_error (fst (process_query failing_env alice_store ''alice'' ''hello'' (Some test_mode)))
      = Some ''Connection error.''"
proof -
  have a: "invoke failing_env (with_context failing_env ''hello'' (Some test_mode))
       (messages_of alice_store ''alice'') = Inl ''Connection error.''"
    by (simp add: failing_env_def)
  have b: "length (messages_of alice_store ''alice'') = 22"
    by code_simp
  show ?thesis
    using failed_query_leaves_history [OF a, of "''alice''" noon 10] a b by simp
qed

text \<open>
  As long as every result of the reasoning service carries a text as its output, the
  messages of every user are those of a list of exchanges, whatever calls were made.
\<close>

lemma exchange_messages_append:
  "exchange_messages (xs @ ys) = exchange_messages xs @ exchange_messages ys"
  by (induction xs) auto

lemma alternates_exchange_messages: "alternates_from User (exchange_messages xs)"
  by (induction xs) auto

lemma length_exchange_messages: "length (exchange_messages xs) = 2 * length xs"
  by (induction xs) auto

lemma messages_of_empty: "messages_of Map.empty u = exchange_messages []"
  by (simp add: messages_of_def)

lemma process_query_exchanges:
  assumes "messages_of store u = exchange_messages xs"
    and "\<forall>x h r. invoke env x h = Inr r \<longrightarrow> (\<exists>t. output r = Some (OutputText t))"
  shows "\<exists>ys. messages_of (snd (process_query env store user_id query ctx)) u
           = exchange_messages ys"
proof (cases "invoke env (with_context env query ctx) (messages_of store user_id)")
  case (Inl e)
  then show ?thesis
    using assms(1) by (auto simp: process_query_raise get_user_memory_store)
next
  case (Inr result)
  with assms(2) obtain answer where answer: "output result = Some (OutputText answer)"
    by blast
  show ?thesis
  proof (cases "u = user_id")
    case True
    have "messages_of (snd (process_query env store user_id query ctx)) u
        = exchange_messages (xs @ [(with_context env query ctx, answer)])"
      using process_query_return(4) [OF Inr answer] assms(1) True
      by (simp add: exchange_messages_append)
    then show ?thesis by blast
  next
    case False
    then show ?thesis using process_query_return(5) [OF Inr answer] assms(1) by auto
  qed
qed

lemma run_calls_exchanges:
  assumes "\<forall>u. \<exists>xs. messages_of store u = exchange_messages xs"
    and "\<forall>call \<in> set calls. \<forall>x h r.
           invoke (fst call) x h = Inr r \<longrightarrow> (\<exists>t. output r = Some (OutputText t))"
  shows "\<exists>xs. messages_of (run_calls calls store) u = exchange_messages xs"
  using assms
proof (induction calls arbitrary: store)
  case Nil
  then show ?case by simp
next
  case (Cons call calls)
  obtain env user_id query ctx where call: "call = (env, user_id, query, ctx)"
    by (cases call) auto
  have env: "\<forall>x h r. invoke env x h = Inr r \<longrightarrow> (\<exists>t. output r = Some (OutputText t))"
    using Cons.prems(2) call by simp
  have "\<forall>u. \<exists>xs. messages_of (snd (process_query env store user_id query ctx)) u
          = exchange_messages xs"
    using Cons.prems(1) process_query_exchanges [OF _ env] by blast
  moreover have "\<forall>call \<in> set calls. \<forall>x h r.
      invoke (fst call) x h = Inr r \<longrightarrow> (\<exists>t. output r = Some (OutputText t))"
    using Cons.prems(2) by simp
  ultimately show ?case using Cons.IH call by simp
qed

lemma text_outputs_alternate:
  assumes "\<forall>call \<in> set calls. \<forall>x h r.
             invoke (fst call) x h = Inr r \<longrightarrow> (\<exists>t. output r = Some (OutputText t))"
  shows "alternates_from User (messages_of (run_calls calls Map.empty) u)
     \<and> even (length (messages_of (run_calls calls Map.empty) u))"
proof -
  obtain xs where xs: "messages_of (run_calls calls Map.empty) u = exchange_messages xs"
    using run_calls_exchanges [OF _ assms, of Map.empty u] messages_of_empty by blast
  show ?thesis
    by (simp add: xs alternates_exchange_messages length_exchange_messages)
qed


text \<open>
  \<^bold>\<open>C2\<close>, as the specification has it, asks that the user turn kept in the history be the
  original query when a context is supplied. \<open>process_query\<close> overwrites \<open>query\<close> with the
  text that carries the context and stores that: after one successful call with the
  context \<open>{"test_mode": True}\<close> and the query \<open>hello\<close>, the stored user turn is the
  augmented text, and no stored message is the original query.
\<close>

theorem stored_user_turn_counterexample:
  \<open>qr_error (fst (process_query replying_env Map.empty ''alice'' ''hello'' (Some test_mode))) = None
   \<and> messages_of (snd (process_query replying_env Map.empty ''alice'' ''hello'' (Some test_mode)))
        ''alice''
       = [HumanMessage ''Context: {"test_mode": true}\<newline>\<newline>Query: hello'', AIMessage ''Sure.'']
   \<and> HumanMessage ''hello''
       \<notin> set (messages_of
                (snd (process_query replying_env Map.empty ''alice'' ''hello'' (Some test_mode)))
                ''alice'')\<close>
  by code_simp

text \<open>
  \<^bold>\<open>C2\<close>, amended. For every call of \<open>process_query\<close> that succeeds, the user turn kept in
  the history is the text that was sent to the reasoning service. With a non-empty
  context that text is \<open>Context: \<close>, the serialised context, a blank line and
  \<open>Query: \<close> followed by the original query, and it differs from the original query; with
  no context or an empty one it is the original query.
\<close>

theorem stored_user_turn_is_sent_text:
  assumes "qr_error (fst (process_query env store user_id query ctx)) = None"
  shows "messages_of (snd (process_query env store user_id query ctx)) user_id =
           messages_of store user_id
             @ [HumanMessage (with_context env query ctx),
                AIMessage (qr_response (fst (process_query env store user_id query ctx)))]
     \<and> (\<forall>d. ctx = Some d \<and> d \<noteq> [] \<longrightarrow>
           with_context env query ctx
             = ''Context: '' @ json_dumps env d @ ''\<newline>\<newline>Query: '' @ query
           \<and> with_context env query ctx \<noteq> query)
     \<and> (ctx = None \<or> ctx = Some [] \<longrightarrow> with_context env query ctx = query)"
proof -
  from assms obtain result answer where
    r: "invoke env (with_context env query ctx) (messages_of store user_id) = Inr result"
    and o: "output result = Some (OutputText answer)"
    by (rule process_query_succeeded)
  have a: "messages_of (snd (process_query env store user_id query ctx)) user_id =
           messages_of store user_id
             @ [HumanMessage (with_context env query ctx),
                AIMessage (qr_response (fst (process_query env store user_id query ctx)))]"
    using process_query_return(2,4) [OF r o] by simp
  have b: "with_context env query (Some d)
             = ''Context: '' @ json_dumps env d @ ''\<newline>\<newline>Query: '' @ query
           \<and> with_context env query (Some d) \<noteq> query" if "d \<noteq> []" for d
  proof -
    have eq: "with_context env query (Some d)
        = ''Context: '' @ json_dumps env d @ ''\<newline>\<newline>Query: '' @ query"
      using that by (simp add: with_context_def)
    have "length (with_context env query (Some d)) > length query"
      unfolding eq by simp
    then have "with_context env query (Some d) \<noteq> query" by auto
    with eq show ?thesis by simp
  qed
  have c: "with_context env query None = query" "with_context env query (Some []) = query"
    by (simp_all add: with_context_def)
  from a b c show ?thesis by auto
qed

theorem stored_user_turn_is_sent_text_witness:
  \<open>qr_error (fst (process_query replying_env alice_store ''alice'' ''hello'' (Some test_mode)))
     = None
   \<and> test_mode \<noteq> []
   \<and> messages_of (snd (process_query replying_env alice_store ''alice'' ''hello'' (Some test_mode)))
        ''alice''
       = messages_of alice_store ''alice''
           @ [HumanMessage ''Context: {"test_mode": true}\<newline>\<newline>Query: hello'',
              AIMessage ''Sure.'']
   \<and> with_context replying_env ''hello'' (Some test_mode) \<noteq> ''hello''
   \<and> qr_error (fst (process_query replying_env alice_store ''alice'' ''hello'' None)) = None
   \<and> messages_of (snd (process_query replying_env alice_store ''alice'' ''hello'' None)) ''alice''
       = messages_of alice_store ''alice'' @ [HumanMessage ''hello'', AIMessage ''Sure.'']\<close>
proof -
  have a: "qr_error (fst (process_query replying_env alice_store ''alice'' ''hello''
             (Some test_mode))) = None"
    by code_simp
  have a': "qr_response (fst (process_query replying_env alice_store ''alice'' ''hello''
             (Some test_mode))) = ''Sure.''"
    by code_simp
  have b: "qr_error (fst (process_query replying_env alice_store ''alice'' ''hello'' None)) = None"
    by code_simp
  have b': "qr_response (fst (process_query replying_env alice_store ''alice'' ''hello'' None))
      = ''Sure.''"
    by code_simp
  have c: "test_mode \<noteq> []" by (simp add: test_mode_def)
  have d: \<open>json_dumps replying_env test_mode = ''{"test_mode": true}''\<close>
    by (simp add: replying_env_def)
  show ?thesis
    using stored_user_turn_is_sent_text [OF a] stored_user_turn_is_sent_text [OF b]
      a a' b b' c d
    by simp
qed


section \<open>What a read of the history returns\<close>

lemma pair_up_exchange_messages:
  "map entry_pair (pair_up clock i (exchange_messages xs)) = xs"
  by (induction xs arbitrary: i) (auto simp: entry_pair_def)

lemma drop_exchange_messages:
  "drop (2 * n) (exchange_messages xs) = exchange_messages (drop n xs)"
proof (induction xs arbitrary: n)
  case Nil
  then show ?case by simp
next
  case (Cons x xs)
  obtain a b where x: "x = (a, b)" by (cases x)
  show ?case
  proof (cases n)
    case 0
    then show ?thesis by simp
  next
    case (Suc k)
    then show ?thesis using Cons.IH [of k] x by simp
  qed
qed

text \<open>
  The slice \<open>messages[-limit*2:]\<close> of the messages of a list of exchanges: the last
  \<open>limit\<close> exchanges when \<open>limit\<close> is positive, and all of them when it is 0, since
  \<open>-0\<close> is 0 and the slice starts at the first message.
\<close>

lemma slice_exchange_messages:
  assumes "0 \<le> limit"
  shows "slice_from (- limit * 2) (exchange_messages xs) =
           exchange_messages (if limit = 0 then xs else drop (length xs - nat limit) xs)"
proof (cases "limit = 0")
  case True
  then show ?thesis by (simp add: slice_from_def)
next
  case False
  define l where "l = nat limit"
  with assms False have l: "limit = int l" and pos: "0 < l" by simp_all
  have "nat (max (- limit * 2 + int (length (exchange_messages xs))) 0)
      = 2 * (length xs - l)"
    unfolding l length_exchange_messages by (simp add: max_def) linarith
  moreover have "- limit * 2 < 0" using pos l by simp
  ultimately have "slice_from (- limit * 2) (exchange_messages xs)
      = drop (2 * (length xs - l)) (exchange_messages xs)"
    by (simp only: slice_from_def Let_def if_True)
  then show ?thesis
    using False by (simp add: drop_exchange_messages l_def)
qed

lemma history_of_exchanges:
  assumes "store user_id = Some memory" and "chat_memory memory = exchange_messages xs"
    and "0 \<le> limit"
  shows "map entry_pair (get_user_conversation_history clock store user_id limit) =
           (if limit = 0 then xs else drop (length xs - nat limit) xs)"
proof -
  have "get_user_conversation_history clock store user_id limit =
      pair_up clock 0 (slice_from (- limit * 2) (exchange_messages xs))"
    using assms(1,2) by (simp add: get_user_conversation_history_def)
  then show ?thesis
    by (simp only: slice_exchange_messages [OF assms(3)] pair_up_exchange_messages)
qed

text \<open>
  \<^bold>\<open>C1.\<close> The specification bounds what \<open>get_user_conversation_history(U, 1000)\<close> returns
  by the 10 most recent exchanges. The memory is built with \<open>k=10\<close>, but the messages are
  appended to and read from \<open>chat_memory\<close>, which nothing truncates: after eleven
  successful queries of one user the call returns eleven pairs, the oldest exchange
  first.
\<close>

theorem eleven_exchanges_all_returned:
  "map user_message
       (get_user_conversation_history noon (run_calls eleven_calls Map.empty) ''alice'' 1000)
     = eleven_queries
   \<and> length (get_user_conversation_history noon (run_calls eleven_calls Map.empty) ''alice'' 1000)
     = 11
   \<and> hd (get_user_conversation_history noon (run_calls eleven_calls Map.empty) ''alice'' 1000)
     = \<lparr>user_message = ''q01'', agent_response = ''Sure.'',
        entry_timestamp = ''2024-05-01T12:00:00''\<rparr>"
  by code_simp

text \<open>
  \<^bold>\<open>C9.\<close> For a known user whose stored messages are those of at least one exchange,
  \<open>get_user_conversation_history(user_id, 0)\<close> returns all stored pairs, in order, and not
  an empty list.
\<close>

theorem history_limit_zero_returns_all:
  assumes "store user_id = Some memory" and "chat_memory memory = exchange_messages xs"
    and "xs \<noteq> []"
  shows "map entry_pair (get_user_conversation_history clock store user_id 0) = xs
     \<and> length (get_user_conversation_history clock store user_id 0) = length xs
     \<and> get_user_conversation_history clock store user_id 0 \<noteq> []"
proof -
  have a: "map entry_pair (get_user_conversation_history clock store user_id 0) = xs"
    using history_of_exchanges [of store user_id memory xs 0 clock] assms(1,2) by simp
  then have "length (map entry_pair (get_user_conversation_history clock store user_id 0))
      = length xs"
    by simp
  then have b: "length (get_user_conversation_history clock store user_id 0) = length xs"
    by simp
  with assms(3) have c: "get_user_conversation_history clock store user_id 0 \<noteq> []"
    by auto
  from a b c show ?thesis by simp
qed

theorem history_limit_zero_returns_all_witness:
  "alice_store ''alice'' = Some alice_memory
   \<and> chat_memory alice_memory = exchange_messages alice_exchanges
   \<and> alice_exchanges \<noteq> []
   \<and> map entry_pair (get_user_conversation_history noon alice_store ''alice'' 0) = alice_exchanges
   \<and> length (get_user_conversation_history noon alice_store ''alice'' 0) = 11"
proof -
  have a: "alice_store ''alice'' = Some alice_memory" by code_simp
  have b: "chat_memory alice_memory = exchange_messages alice_exchanges"
    by (simp add: alice_memory_def)
  have c: "alice_exchanges \<noteq> []" by code_simp
  have d: "length alice_exchanges = 11" by code_simp
  show ?thesis
    using history_limit_zero_returns_all
        [of alice_store "''alice''" alice_memory alice_exchanges noon] a b c d
    by simp
qed

section \<open>The baseline run\<close>

lemma run_questions_complete:
  assumes "\<forall>q \<in> set questions. q_question q \<noteq> None"
  shows "\<exists>rows store'.
           run_questions envs i questions results store = (Inr (results @ rows), store')
           \<and> map (Some \<circ> br_question) rows = map q_question questions"
  using assms
proof (induction questions arbitrary: i results store)
  case Nil
  then show ?case by simp
next
  case (Cons question questions)
  then obtain qtext where qtext: "q_question question = Some qtext" by auto
  obtain response store1 where
    p: "process_query (envs i) store ''baseline_test'' qtext (Some [(''test_mode'', JBool True)])
          = (response, store1)"
    by (cases "process_query (envs i) store ''baseline_test'' qtext
                 (Some [(''test_mode'', JBool True)])") auto
  define row where "row =
    \<lparr>br_question_id = get_or (q_id question) ''unknown'',
     br_question = qtext,
     br_expected = get_or (q_expected_answer question) [],
     br_actual = qr_response response,
     br_passed = ev_passed (evaluate_baseline_response question (qr_response response)),
     br_confidence = ev_confidence (evaluate_baseline_response question (qr_response response)),
     br_evaluation = evaluate_baseline_response question (qr_response response)\<rparr>"
  have step: "run_questions envs i (question # questions) results store =
      run_questions envs (i + 1) questions (results @ [row]) store1"
    using qtext p by (simp add: row_def Let_def)
  from Cons.prems have "\<forall>q \<in> set questions. q_question q \<noteq> None" by simp
  from Cons.IH [OF this, of "i + 1" "results @ [row]" store1]
  obtain rows store' where
    r: "run_questions envs (i + 1) questions (results @ [row]) store1
          = (Inr ((results @ [row]) @ rows), store')"
    and m: "map (Some \<circ> br_question) rows = map q_question questions"
    by blast
  have "run_questions envs i (question # questions) results store
      = (Inr (results @ (row # rows)), store')"
    using step r by simp
  moreover have "map (Some \<circ> br_question) (row # rows) = map q_question (question # questions)"
    using m qtext by (simp add: row_def)
  ultimately show ?case by blast
qed

lemma run_questions_returned:
  assumes "run_questions envs i questions results store = (Inr rs, store')"
  shows "\<exists>rows. rs = results @ rows
           \<and> map (Some \<circ> br_question) rows = map q_question questions"
  using assms
proof (induction questions arbitrary: i results store)
  case Nil
  then show ?case by simp
next
  case (Cons question questions)
  show ?case
  proof (cases "q_question question")
    case None
    with Cons.prems show ?thesis by simp
  next
    case (Some qtext)
    obtain response store1 where
      p: "process_query (envs i) store ''baseline_test'' qtext
            (Some [(''test_mode'', JBool True)]) = (response, store1)"
      by (cases "process_query (envs i) store ''baseline_test'' qtext
                   (Some [(''test_mode'', JBool True)])") auto
    define row where "row =
      \<lparr>br_question_id = get_or (q_id question) ''unknown'',
       br_question = qtext,
       br_expected = get_or (q_expected_answer question) [],
       br_actual = qr_response response,
       br_passed = ev_passed (evaluate_baseline_response question (qr_response response)),
       br_confidence = ev_confidence (evaluate_baseline_response question (qr_response response)),
       br_evaluation = evaluate_baseline_response question (qr_response response)\<rparr>"
    have "run_questions envs i (question # questions) results store =
        run_questions envs (i + 1) questions (results @ [row]) store1"
      using Some p by (simp add: row_def Let_def)
    with Cons.prems
    have "run_questions envs (i + 1) questions (results @ [row]) store1 = (Inr rs, store')"
      by simp
    from Cons.IH [OF this] obtain rows where
      rs: "rs = (results @ [row]) @ rows"
      and m: "map (Some \<circ> br_question) rows = map q_question questions"
      by blast
    have "rs = results @ (row # rows)" using rs by simp
    moreover have "map (Some \<circ> br_question) (row # rows) = map q_question (question # questions)"
      using m Some by (simp add: row_def)
    ultimately show ?thesis by blast
  qed
qed

lemma cleared_store: "clear_user_memory store user_id user_id = None"
  by (auto simp: clear_user_memory_def)

lemma cleared_history:
  "get_user_conversation_history clock (clear_user_memory store user_id) user_id limit = []"
  by (simp add: get_user_conversation_history_def cleared_store)

text \<open>
  \<^bold>\<open>C8.\<close> For every loaded question set with at least one question, a run of
  \<open>run_baseline_test\<close> that returns gives a report with one row for each of the first five
  selected questions, in their order, and no more; after it the reserved user
  \<open>baseline_test\<close> has no memory and its history reads as empty. The run does return
  whenever each of these questions carries its question text.
\<close>

theorem baseline_run_capped_and_cleared:
  assumes "baseline_questions \<noteq> []"
  shows "(run_baseline_test envs end_time baseline_questions store question_id
            = (Inr outcome, store') \<longrightarrow>
          (\<exists>report. outcome = Report report
            \<and> rep_total_questions report \<le> 5
            \<and> rep_total_questions report = length (rep_results report)
            \<and> map (Some \<circ> br_question) (rep_results report)
                = map q_question (take 5 (select_questions question_id baseline_questions))
            \<and> store' ''baseline_test'' = None
            \<and> get_user_conversation_history clock store' ''baseline_test'' limit = []))
     \<and> ((\<forall>q \<in> set (take 5 (select_questions question_id baseline_questions)).
            q_question q \<noteq> None) \<longrightarrow>
          (\<exists>report store''.
             run_baseline_test envs end_time baseline_questions store question_id
               = (Inr (Report report), store'')))"
proof -
  let ?qs = "take 5 (select_questions question_id baseline_questions)"
  let ?run = "run_baseline_test envs end_time baseline_questions store question_id"
  have first: "\<exists>report. outcome = Report report
            \<and> rep_total_questions report \<le> 5
            \<and> rep_total_questions report = length (rep_results report)
            \<and> map (Some \<circ> br_question) (rep_results report) = map q_question ?qs
            \<and> store' ''baseline_test'' = None
            \<and> get_user_conversation_history clock store' ''baseline_test'' limit = []"
    if run: "?run = (Inr outcome, store')"
  proof -
    obtain r store1 where q: "run_questions envs 0 ?qs [] store = (r, store1)"
      by (cases "run_questions envs 0 ?qs [] store") auto
    show ?thesis
    proof (cases r)
      case (Inl e)
      with q run assms show ?thesis by (simp add: run_baseline_test_def)
    next
      case (Inr rows)
      from run_questions_returned [of envs 0 ?qs "[]" store rows store1] q Inr
      have m: "map (Some \<circ> br_question) rows = map q_question ?qs" by simp
      then have "length (map (Some \<circ> br_question) rows) = length (map q_question ?qs)"
        by simp
      then have le: "length rows \<le> 5" by simp
      have o: "outcome = Report
         \<lparr>rep_agent_type = ''marketing'',
          rep_total_questions = length rows,
          rep_passed = length (filter br_passed rows),
          rep_average_confidence =
            (if rows \<noteq> [] then sum_list (map br_confidence rows) / real (length rows) else 0),
          rep_results = rows,
          rep_timestamp = end_time\<rparr>"
        and s: "store' = clear_user_memory store1 ''baseline_test''"
        using run q Inr assms by (simp_all add: run_baseline_test_def)
      show ?thesis
        using le m cleared_store [of store1 "''baseline_test''"]
          cleared_history [of clock store1 "''baseline_test''" limit]
        by (simp add: o s)
    qed
  qed
  have second: "\<exists>report store''. ?run = (Inr (Report report), store'')"
    if "\<forall>q \<in> set ?qs. q_question q \<noteq> None"
  proof -
    from run_questions_complete [OF that, of envs 0 "[]" store]
    obtain rows store1 where "run_questions envs 0 ?qs [] store = (Inr rows, store1)"
      by auto
    then show ?thesis using assms by (simp add: run_baseline_test_def)
  qed
  from first second show ?thesis by blast
qed

theorem baseline_run_capped_and_cleared_witness:
  "seven_questions \<noteq> []
   \<and> length seven_questions = 7
   \<and> None \<notin> set (map q_question (take 5 (select_questions None seven_questions)))
   \<and> (\<exists>report store'.
      run_baseline_test replying_envs ''2024-05-01T10:00:00'' seven_questions alice_store None
        = (Inr (Report report), store')
      \<and> rep_total_questions report = 5
      \<and> map (Some \<circ> br_question) (rep_results report)
          = map q_question (take 5 (select_questions None seven_questions))
      \<and> store' ''baseline_test'' = None
      \<and> get_user_conversation_history noon store' ''baseline_test'' 10 = [])"
proof -
  have a: "seven_questions \<noteq> []" by code_simp
  have a': "length seven_questions = 7" by code_simp
  have b: "\<forall>q \<in> set (take 5 (select_questions None seven_questions)). q_question q \<noteq> None"
    by code_simp
  then have b': "None \<notin> set (map q_question (take 5 (select_questions None seven_questions)))"
    by auto
  have five: "length (take 5 (select_questions None seven_questions)) = 5" by code_simp
  note t = baseline_run_capped_and_cleared [OF a, of replying_envs "''2024-05-01T10:00:00''"
      alice_store None]
  from t b obtain report store' where
    r: "run_baseline_test replying_envs ''2024-05-01T10:00:00'' seven_questions alice_store None
          = (Inr (Report report), store')"
    by blast
  from t [of "Report report" store' noon 10] r
  have p: "rep_total_questions report = length (rep_results report)"
    "map (Some \<circ> br_question) (rep_results report)
          = map q_question (take 5 (select_questions None seven_questions))"
    "store' ''baseline_test'' = None"
    "get_user_conversation_history noon store' ''baseline_test'' 10 = []"
    by auto
  from p(2) have "length (map (Some \<circ> br_question) (rep_results report))
      = length (map q_question (take 5 (select_questions None seven_questions)))"
    by simp
  then have "length (rep_results report) = 5" using five by simp
  with p(1) have n: "rep_total_questions report = 5" by simp
  show ?thesis using a a' b' r n p by blast
qed




end
